theory Spec2Isabelle
  imports Complex_Main
begin

section \<open>The EcoScore gamification engine of greenbridge\<close>

text \<open>
  A shallow embedding of \<^verbatim>\<open>EcoScore.update_from_batches\<close>,
  \<^verbatim>\<open>EcoScore._update_gamification_elements\<close> and \<^verbatim>\<open>EcoScore._update_streak\<close>
  of \<^verbatim>\<open>greenbridge/eco_cabinet/models.py\<close>.

  Conventions of the embedding:
  \<^item> a Python \<^verbatim>\<open>Decimal\<close> is a rational number (sums, products, the division by 20
    and the comparison with the badge thresholds are exact on the decimals a
    \<^verbatim>\<open>DecimalField\<close> holds);
  \<^item> a Python \<^verbatim>\<open>int\<close> is an \<open>int\<close>;
  \<^item> a \<^verbatim>\<open>datetime.date\<close> is its ordinal day number, so that
    \<^verbatim>\<open>(today - last).days\<close> is a difference of integers;
  \<^item> the nullable \<^verbatim>\<open>last_activity_date\<close> is an \<open>option\<close>;
  \<^item> \<^verbatim>\<open>timezone.now().date()\<close> is a parameter \<open>today\<close> of the run, and the
    queryset of the user's recycled, active batches is a parameter \<open>batches\<close>;
  \<^item> \<^verbatim>\<open>float(total_weight_kg) / threshold\<close> is the exact quotient: the rounding of
    binary floating point is left out of the model;
  \<^item> \<^verbatim>\<open>self.save()\<close> and the bookkeeping columns (\<^verbatim>\<open>id\<close>, \<^verbatim>\<open>user\<close>,
    \<^verbatim>\<open>global_rank\<close>, \<^verbatim>\<open>region_rank\<close>, \<^verbatim>\<open>created_at\<close>, \<^verbatim>\<open>updated_at\<close>) are not
    modelled: the state is the instance in memory when \<^verbatim>\<open>update_from_batches\<close>
    returns.
  None of the three methods has a \<^verbatim>\<open>raise\<close>, an indexing or a division by a
  variable, so each is a total function on the state.
\<close>

subsection \<open>Data model\<close>

type_synonym decimal = rat

type_synonym date = int

text \<open>
  Modelled from the spec: the class \<^verbatim>\<open>TextileBatch\<close> of \<^verbatim>\<open>greenbridge.waste.models\<close>
  is imported by \<^verbatim>\<open>update_from_batches\<close> and is not among the sources. A row of the
  filtered queryset carries what the aggregation reads: \<^verbatim>\<open>weight_kg\<close> (a decimal, never
  \<^verbatim>\<open>NULL\<close>) and the three coefficients of its material type, each of which may be
  missing (SQL \<^verbatim>\<open>NULL\<close>) and then contributes nothing to the sums.
\<close>

record textile_batch =
  weight_kg :: decimal
  material_co2_per_kg :: "decimal option"
  material_water_per_kg :: "decimal option"
  material_energy_per_kg :: "decimal option"

text \<open>
  The fields of \<^verbatim>\<open>EcoScore\<close> that the engine reads or writes. \<^verbatim>\<open>badges\<close> is an
  \<^verbatim>\<open>ArrayField\<close> which the engine overwrites with \<^verbatim>\<open>list(set(...))\<close>: a list without
  duplicates whose order depends on the hashes of the strings. The engine reads it
  only through \<^verbatim>\<open>badge not in self.badges\<close>, so the field is a set of strings here.
\<close>

record eco_score =
  total_batches :: int
  total_weight_kg :: decimal
  total_co2_saved_kg :: decimal
  total_water_saved_liters :: decimal
  total_energy_saved_kwh :: decimal
  level :: int
  points :: int
  badges :: "string set"
  next_badge_progress :: rat
  streak_days :: int
  longest_streak_days :: int
  last_activity_date :: "date option"
  trees_equivalent :: decimal

text \<open>The field defaults of the model: the row made by \<^verbatim>\<open>create_eco_score\<close>.\<close>

definition initial_eco_score :: eco_score where
  "initial_eco_score =
     \<lparr> total_batches = 0, total_weight_kg = 0, total_co2_saved_kg = 0,
       total_water_saved_liters = 0, total_energy_saved_kwh = 0,
       level = 1, points = 0, badges = {}, next_badge_progress = 0,
       streak_days = 0, longest_streak_days = 0, last_activity_date = None,
       trees_equivalent = 0 \<rparr>"

subsection \<open>Library behaviour the methods rely on\<close>

text \<open>\<^verbatim>\<open>int(d)\<close> of a \<^verbatim>\<open>Decimal\<close> truncates towards zero.\<close>

definition py_int :: "decimal \<Rightarrow> int" where
  "py_int d = (if 0 \<le> d then \<lfloor>d\<rfloor> else \<lceil>d\<rceil>)"

text \<open>
  The SQL aggregate \<^verbatim>\<open>Sum\<close> skips \<^verbatim>\<open>NULL\<close> values and is \<^verbatim>\<open>NULL\<close> (Python
  \<^verbatim>\<open>None\<close>) when no value is left, in particular on an empty queryset.
\<close>

definition sql_sum :: "decimal option list \<Rightarrow> decimal option" where
  "sql_sum vs =
     (case List.map_filter id vs of [] \<Rightarrow> None | w # ws \<Rightarrow> Some (sum_list (w # ws)))"

text \<open>\<^verbatim>\<open>x or Decimal('0.00')\<close>: \<^verbatim>\<open>None\<close> and a zero decimal are both falsy.\<close>

definition or_zero :: "decimal option \<Rightarrow> decimal" where
  "or_zero x = (case x of None \<Rightarrow> 0 | Some d \<Rightarrow> (if d = 0 then 0 else d))"

text \<open>\<^verbatim>\<open>F('weight_kg') * F('material_type__..._per_kg')\<close>: \<^verbatim>\<open>NULL\<close> when the factor is.\<close>

definition weighted :: "(textile_batch \<Rightarrow> decimal option) \<Rightarrow> textile_batch \<Rightarrow> decimal option" where
  "weighted coeff b = map_option (\<lambda>c. weight_kg b * c) (coeff b)"

subsection \<open>\<^verbatim>\<open>_update_gamification_elements\<close>\<close>

definition level_thresholds :: "int list" where
  "level_thresholds = [0, 100, 300, 600, 1000, 1500, 2100, 2800, 3600, 4500, 5500]"

text \<open>
  The loop \<^verbatim>\<open>for i, threshold in enumerate(level_thresholds)\<close>: the third argument
  is \<^verbatim>\<open>self.level\<close>, assigned only in the iterations whose test succeeds.
\<close>

fun level_loop :: "int \<Rightarrow> (nat \<times> int) list \<Rightarrow> int \<Rightarrow> int" where
  "level_loop p [] lv = lv"
| "level_loop p ((i, threshold) # rest) lv =
     level_loop p rest (if p \<ge> threshold then int i + 1 else lv)"

text \<open>The local list \<^verbatim>\<open>badges\<close>, built by twelve independent tests in this order.\<close>

definition earned_badges :: "decimal \<Rightarrow> int \<Rightarrow> int \<Rightarrow> string list" where
  "earned_badges w n s =
     (if w \<ge> 1 then [''first_step''] else []) @
     (if w \<ge> 10 then [''eco_starter''] else []) @
     (if w \<ge> 50 then [''eco_enthusiast''] else []) @
     (if w \<ge> 100 then [''eco_warrior''] else []) @
     (if w \<ge> 500 then [''eco_champion''] else []) @
     (if w \<ge> 1000 then [''eco_legend''] else []) @
     (if n \<ge> 5 then [''regular_recycler''] else []) @
     (if n \<ge> 20 then [''dedicated_recycler''] else []) @
     (if n \<ge> 50 then [''recycling_expert''] else []) @
     (if s \<ge> 7 then [''weekly_streak''] else []) @
     (if s \<ge> 30 then [''monthly_streak''] else []) @
     (if s \<ge> 100 then [''centurion''] else [])"

text \<open>The dictionary \<^verbatim>\<open>next_badge_thresholds\<close>, in its insertion order.\<close>

definition next_badge_thresholds :: "(string \<times> int) list" where
  "next_badge_thresholds =
     [(''first_step'', 1), (''eco_starter'', 10), (''eco_enthusiast'', 50),
      (''eco_warrior'', 100), (''eco_champion'', 500), (''eco_legend'', 1000)]"

text \<open>
  The \<^verbatim>\<open>for ... else\<close> loop over the sorted items: the first badge that is not in
  the set gives the quotient and breaks; the \<^verbatim>\<open>else\<close> branch gives 1.0.
\<close>

fun progress_loop :: "(string \<times> int) list \<Rightarrow> string set \<Rightarrow> rat \<Rightarrow> rat" where
  "progress_loop [] bs current_weight = 1"
| "progress_loop ((badge, threshold) # rest) bs current_weight =
     (if badge \<notin> bs then current_weight / of_int threshold
      else progress_loop rest bs current_weight)"

definition update_gamification_elements :: "eco_score \<Rightarrow> eco_score" where
  "update_gamification_elements s =
     (let pts = py_int (total_weight_kg s * 10);
          lv = level_loop pts (enumerate 0 level_thresholds) (level s);
          bs = set (earned_badges (total_weight_kg s) (total_batches s) (streak_days s))
      in s\<lparr> points := pts, level := lv, badges := bs,
            next_badge_progress :=
              progress_loop (sort_key snd next_badge_thresholds) bs (total_weight_kg s) \<rparr>)"

subsection \<open>\<^verbatim>\<open>_update_streak\<close>\<close>

definition update_streak :: "date \<Rightarrow> eco_score \<Rightarrow> eco_score" where
  "update_streak today s =
     (case last_activity_date s of
        None \<Rightarrow> s\<lparr> streak_days := 1, longest_streak_days := 1, last_activity_date := Some today \<rparr>
      | Some prev \<Rightarrow>
          if prev = today then s
          else if today - prev = 1 then
            (let s1 = s\<lparr> streak_days := streak_days s + 1, last_activity_date := Some today \<rparr>
             in if streak_days s1 > longest_streak_days s1
                then s1\<lparr> longest_streak_days := streak_days s1 \<rparr> else s1)
          else s\<lparr> streak_days := 1, last_activity_date := Some today \<rparr>)"

subsection \<open>\<^verbatim>\<open>update_from_batches\<close>\<close>

definition update_from_batches :: "date \<Rightarrow> textile_batch list \<Rightarrow> eco_score \<Rightarrow> eco_score" where
  "update_from_batches today batches s =
     (let s1 = s\<lparr> total_batches := int (length batches) \<rparr>;
          weight_sum = or_zero (sql_sum (map (\<lambda>b. Some (weight_kg b)) batches));
          s2 = s1\<lparr> total_weight_kg := weight_sum \<rparr>;
          s3 = s2\<lparr> total_co2_saved_kg := or_zero (sql_sum (map (weighted material_co2_per_kg) batches)),
                   total_water_saved_liters := or_zero (sql_sum (map (weighted material_water_per_kg) batches)),
                   total_energy_saved_kwh := or_zero (sql_sum (map (weighted material_energy_per_kg) batches)) \<rparr>;
          s4 = s3\<lparr> trees_equivalent := total_co2_saved_kg s3 / 20 \<rparr>
      in update_streak today (update_gamification_elements s4))"

text \<open>A lifetime of runs: each event is the date of the trigger and the batch set read then.\<close>

fun run_all :: "eco_score \<Rightarrow> (date \<times> textile_batch list) list \<Rightarrow> eco_score" where
  "run_all s [] = s"
| "run_all s ((today, batches) # evs) = run_all (update_from_batches today batches s) evs"

text \<open>
  The invariant of the streak fields that the runs keep: the streak never exceeds the
  longest streak, and once a date of last activity is stored the longest streak is at
  least one day.
\<close>

definition streak_inv :: "eco_score \<Rightarrow> bool" where
  "streak_inv s \<longleftrightarrow>
     streak_days s \<le> longest_streak_days s
     \<and> (last_activity_date s = None \<or> 1 \<le> longest_streak_days s)"

section \<open>Properties of the methods\<close>

lemma sum_weights: "or_zero (sql_sum (map (\<lambda>b. Some (weight_kg b)) bs)) = sum_list (map weight_kg bs)"
  by (cases bs) (simp_all add: sql_sum_def or_zero_def List.map_filter_def comp_def)

lemma sorted_items: "sort_key snd next_badge_thresholds = next_badge_thresholds"
  by (simp add: next_badge_thresholds_def)

lemma streak_keeps_gamification:
  "points (update_streak today s) = points s"
  "level (update_streak today s) = level s"
  "badges (update_streak today s) = badges s"
  "next_badge_progress (update_streak today s) = next_badge_progress s"
  "total_weight_kg (update_streak today s) = total_weight_kg s"
  "total_batches (update_streak today s) = total_batches s"
  "total_co2_saved_kg (update_streak today s) = total_co2_saved_kg s"
  "total_water_saved_liters (update_streak today s) = total_water_saved_liters s"
  "total_energy_saved_kwh (update_streak today s) = total_energy_saved_kwh s"
  "trees_equivalent (update_streak today s) = trees_equivalent s"
  by (simp_all add: update_streak_def Let_def split: option.split)

lemma gamification_keeps_streak:
  "streak_days (update_gamification_elements s) = streak_days s"
  "longest_streak_days (update_gamification_elements s) = longest_streak_days s"
  "last_activity_date (update_gamification_elements s) = last_activity_date s"
  "total_weight_kg (update_gamification_elements s) = total_weight_kg s"
  "total_batches (update_gamification_elements s) = total_batches s"
  by (simp_all add: update_gamification_elements_def Let_def)

lemma run_total_weight:
  "total_weight_kg (update_from_batches today bs s) = sum_list (map weight_kg bs)"
  by (simp add: update_from_batches_def Let_def streak_keeps_gamification gamification_keeps_streak sum_weights)

lemma run_total_batches:
  "total_batches (update_from_batches today bs s) = int (length bs)"
  by (simp add: update_from_batches_def Let_def streak_keeps_gamification gamification_keeps_streak)

lemma run_points:
  "points (update_from_batches today bs s) = py_int (sum_list (map weight_kg bs) * 10)"
  by (simp add: update_from_batches_def Let_def streak_keeps_gamification update_gamification_elements_def sum_weights)

lemma run_level:
  "level (update_from_batches today bs s) =
     level_loop (py_int (sum_list (map weight_kg bs) * 10)) (enumerate 0 level_thresholds) (level s)"
  by (simp add: update_from_batches_def Let_def streak_keeps_gamification update_gamification_elements_def sum_weights)

lemma run_badges:
  "badges (update_from_batches today bs s) =
     set (earned_badges (sum_list (map weight_kg bs)) (int (length bs)) (streak_days s))"
  by (simp add: update_from_batches_def Let_def streak_keeps_gamification update_gamification_elements_def sum_weights)

lemma run_progress:
  "next_badge_progress (update_from_batches today bs s) =
     progress_loop next_badge_thresholds
       (set (earned_badges (sum_list (map weight_kg bs)) (int (length bs)) (streak_days s)))
       (sum_list (map weight_kg bs))"
  by (simp add: update_from_batches_def Let_def streak_keeps_gamification update_gamification_elements_def sum_weights sorted_items)

lemma run_streak:
  "streak_days (update_from_batches today bs s) = streak_days (update_streak today s)"
  "longest_streak_days (update_from_batches today bs s) = longest_streak_days (update_streak today s)"
  "last_activity_date (update_from_batches today bs s) = last_activity_date (update_streak today s)"
  by (simp_all add: update_from_batches_def Let_def update_gamification_elements_def update_streak_def split: option.split)

lemma level_loop_count:
  "level_loop p (enumerate 0 level_thresholds) lv =
     (if p < 0 then lv else int (length (filter (\<lambda>t. t \<le> p) level_thresholds)))"
  by (simp add: level_thresholds_def)

lemma py_int_floor: "0 \<le> d \<Longrightarrow> py_int d = \<lfloor>d\<rfloor>"
  by (simp add: py_int_def)

lemma py_int_mono:
  assumes that: "a \<le> b"
  shows "py_int a \<le> py_int b"
proof (cases "0 \<le> a")
  case True
  then show ?thesis using that by (simp add: py_int_def floor_mono)
next
  case False
  show ?thesis
  proof (cases "0 \<le> b")
    case True
    have "\<lceil>a\<rceil> \<le> 0" using False by simp
    moreover have "0 \<le> \<lfloor>b\<rfloor>" using True by simp
    moreover have "py_int a = \<lceil>a\<rceil>" using False by (simp add: py_int_def)
    moreover have "py_int b = \<lfloor>b\<rfloor>" using True by (simp add: py_int_def)
    ultimately show ?thesis by linarith
  next
    case b: False
    then show ?thesis using False that by (simp add: py_int_def ceiling_mono)
  qed
qed

lemma weight_badge_mem:
  "''first_step'' \<in> set (earned_badges w n d) \<longleftrightarrow> 1 \<le> w"
  "''eco_starter'' \<in> set (earned_badges w n d) \<longleftrightarrow> 10 \<le> w"
  "''eco_enthusiast'' \<in> set (earned_badges w n d) \<longleftrightarrow> 50 \<le> w"
  "''eco_warrior'' \<in> set (earned_badges w n d) \<longleftrightarrow> 100 \<le> w"
  "''eco_champion'' \<in> set (earned_badges w n d) \<longleftrightarrow> 500 \<le> w"
  "''eco_legend'' \<in> set (earned_badges w n d) \<longleftrightarrow> 1000 \<le> w"
  by (simp_all add: earned_badges_def)

lemma count_mono:
  "p \<le> q \<Longrightarrow> length (filter (\<lambda>t. t \<le> p) ts) \<le> length (filter (\<lambda>t. t \<le> (q::int)) ts)"
  by (induction ts) auto

lemma count_le_11: "length (filter P level_thresholds) \<le> 11"
proof -
  have "length (filter P level_thresholds) \<le> length level_thresholds" by (rule length_filter_le)
  then show ?thesis by (simp add: level_thresholds_def)
qed

lemma progress_loop_find:
  "progress_loop items bs w =
     (case find (\<lambda>(b, t). b \<notin> bs) items of None \<Rightarrow> 1 | Some (b, t) \<Rightarrow> w / of_int t)"
  by (induction items) auto

lemma progress_cases:
  "progress_loop next_badge_thresholds (set (earned_badges w n d)) w =
     (if w < 1 then w / 1 else if w < 10 then w / 10 else if w < 50 then w / 50
      else if w < 100 then w / 100 else if w < 500 then w / 500
      else if w < 1000 then w / 1000 else 1)"
  by (simp add: next_badge_thresholds_def weight_badge_mem not_le)

lemma progress_range:
  assumes "0 \<le> w"
  shows "0 \<le> progress_loop next_badge_thresholds (set (earned_badges w n d)) w"
    and "progress_loop next_badge_thresholds (set (earned_badges w n d)) w \<le> 1"
    and "w < 1000 \<Longrightarrow> progress_loop next_badge_thresholds (set (earned_badges w n d)) w < 1"
  using assms by (simp_all add: progress_cases)

lemma batch_badge_mem:
  "''regular_recycler'' \<in> set (earned_badges w n d) \<longleftrightarrow> 5 \<le> n"
  "''dedicated_recycler'' \<in> set (earned_badges w n d) \<longleftrightarrow> 20 \<le> n"
  "''recycling_expert'' \<in> set (earned_badges w n d) \<longleftrightarrow> 50 \<le> n"
  by (simp_all add: earned_badges_def)

lemma opt_badge_known:
  assumes "x \<in> S"
  shows "set (if c then [x] else []) \<subseteq> S"
  using assms by (cases c; simp)

lemma earned_badges_known:
  "set (earned_badges w n d)
     \<subseteq> {''first_step'', ''eco_starter'', ''eco_enthusiast'', ''eco_warrior'', ''eco_champion'',
        ''eco_legend'', ''regular_recycler'', ''dedicated_recycler'', ''recycling_expert'',
        ''weekly_streak'', ''monthly_streak'', ''centurion''}"
  unfolding earned_badges_def set_append
  by (intro Un_least opt_badge_known) simp_all

lemma inter_subsetI: "(\<forall>x\<in>S. x \<in> A \<longrightarrow> x \<in> B) \<Longrightarrow> A \<inter> S \<subseteq> B"
  by blast

lemma inter_emptyI: "(\<forall>x\<in>S. x \<notin> A) \<Longrightarrow> A \<inter> S = {}"
  by blast

lemma metric_badges_mono:
  assumes "w \<le> w'" "n \<le> n'"
  shows "set (earned_badges w n d)
           \<inter> {''first_step'', ''eco_starter'', ''eco_enthusiast'', ''eco_warrior'',
              ''eco_champion'', ''eco_legend'', ''regular_recycler'', ''dedicated_recycler'',
              ''recycling_expert''}
         \<subseteq> set (earned_badges w' n' d')"
  using assms by (intro inter_subsetI) (simp add: weight_badge_mem batch_badge_mem)

lemma empty_run_metric_badges:
  "set (earned_badges 0 0 d)
     \<inter> {''first_step'', ''eco_starter'', ''eco_enthusiast'', ''eco_warrior'',
        ''eco_champion'', ''eco_legend'', ''regular_recycler'', ''dedicated_recycler'',
        ''recycling_expert''} = {}"
  by (intro inter_emptyI) (simp add: weight_badge_mem batch_badge_mem)

text \<open>The equations that evaluate a run on concrete inputs.\<close>

lemmas run_eval =
  update_from_batches_def update_gamification_elements_def update_streak_def Let_def
  initial_eco_score_def sql_sum_def or_zero_def List.map_filter_def weighted_def
  earned_badges_def sorted_items next_badge_thresholds_def level_thresholds_def py_int_def

section \<open>Claims\<close>

subsection \<open>C2: points and level\<close>

text \<open>
  C2. For a run whose total weight is not negative, the run sets \<open>total_weight_kg\<close> to the
  sum of the batch weights, \<open>points\<close> to the floor of ten times that weight, and
  \<open>level\<close> to the number of entries of the threshold table that are at most
  \<open>points\<close>; with fewer than 100 points the level is 1.
\<close>

theorem points_and_level:
  assumes "0 \<le> total_weight_kg (update_from_batches today batches s)"
  shows "total_weight_kg (update_from_batches today batches s) = sum_list (map weight_kg batches)
       \<and> points (update_from_batches today batches s)
           = \<lfloor>total_weight_kg (update_from_batches today batches s) * 10\<rfloor>
       \<and> level (update_from_batches today batches s)
           = int (length (filter (\<lambda>t. t \<le> points (update_from_batches today batches s))
                            level_thresholds))
       \<and> (points (update_from_batches today batches s) < 100
            \<longrightarrow> level (update_from_batches today batches s) = 1)"
proof -
  let ?w = "sum_list (map weight_kg batches)"
  have w: "0 \<le> ?w" using assms by (simp add: run_total_weight)
  then have nonneg: "0 \<le> ?w * 10" by simp
  have p: "py_int (?w * 10) = \<lfloor>?w * 10\<rfloor>" using nonneg by (rule py_int_floor)
  have p0: "0 \<le> \<lfloor>?w * 10\<rfloor>" using nonneg by simp
  have lv: "level (update_from_batches today batches s)
              = int (length (filter (\<lambda>t. t \<le> \<lfloor>?w * 10\<rfloor>) level_thresholds))"
    using p0 by (simp add: run_level p level_loop_count)
  have small: "\<lfloor>?w * 10\<rfloor> < 100 \<Longrightarrow>
                 int (length (filter (\<lambda>t. t \<le> \<lfloor>?w * 10\<rfloor>) level_thresholds)) = 1"
    using p0 by (simp add: level_thresholds_def)
  show ?thesis using lv small by (simp add: run_total_weight run_points p)
qed

theorem points_and_level_witness:
  "0 \<le> total_weight_kg (update_from_batches 1
          [\<lparr>weight_kg = 25, material_co2_per_kg = None, material_water_per_kg = None,
            material_energy_per_kg = None\<rparr>] initial_eco_score)
   \<and> points (update_from_batches 1
          [\<lparr>weight_kg = 25, material_co2_per_kg = None, material_water_per_kg = None,
            material_energy_per_kg = None\<rparr>] initial_eco_score) = 250
   \<and> level (update_from_batches 1
          [\<lparr>weight_kg = 25, material_co2_per_kg = None, material_water_per_kg = None,
            material_energy_per_kg = None\<rparr>] initial_eco_score) = 2"
  using points_and_level [of 1 "[\<lparr>weight_kg = 25, material_co2_per_kg = None,
      material_water_per_kg = None, material_energy_per_kg = None\<rparr>]" initial_eco_score]
  by (simp add: run_total_weight level_thresholds_def)

subsection \<open>C4: the streak state machine\<close>

text \<open>
  C4. The streak update has four branches. No date of last activity: the streak and the
  longest streak become 1 and the date becomes today. Last activity today: nothing
  changes. Last activity yesterday: the streak grows by one, the date becomes today, and
  the longest streak is raised to the new streak when that is larger. Any other date
  (an older one, or a later one): the streak becomes 1, the date becomes today, and the
  longest streak is kept. A run applies this update once: its three streak fields are
  those of one application to the state before the run.
\<close>

theorem streak_state_machine:
  "(last_activity_date s = None \<longrightarrow>
      update_streak today s
        = s\<lparr>streak_days := 1, longest_streak_days := 1, last_activity_date := Some today\<rparr>)
   \<and> (last_activity_date s = Some today \<longrightarrow> update_streak today s = s)
   \<and> (last_activity_date s = Some (today - 1) \<longrightarrow>
      update_streak today s
        = s\<lparr>streak_days := streak_days s + 1,
             longest_streak_days := max (longest_streak_days s) (streak_days s + 1),
             last_activity_date := Some today\<rparr>)
   \<and> (\<forall>d. last_activity_date s = Some d \<and> d \<noteq> today \<and> today - d \<noteq> 1 \<longrightarrow>
      update_streak today s = s\<lparr>streak_days := 1, last_activity_date := Some today\<rparr>)
   \<and> streak_days (update_from_batches today batches s) = streak_days (update_streak today s)
   \<and> longest_streak_days (update_from_batches today batches s)
        = longest_streak_days (update_streak today s)
   \<and> last_activity_date (update_from_batches today batches s)
        = last_activity_date (update_streak today s)"
  by (auto simp: update_streak_def Let_def run_streak max_def)

theorem streak_state_machine_witness:
  "update_streak 101 (initial_eco_score\<lparr>streak_days := 0, longest_streak_days := 0,
        last_activity_date := None\<rparr>)
     = initial_eco_score\<lparr>streak_days := 1, longest_streak_days := 1,
         last_activity_date := Some 101\<rparr>
   \<and> update_streak 101 (initial_eco_score\<lparr>streak_days := 4, longest_streak_days := 9,
        last_activity_date := Some 101\<rparr>)
     = initial_eco_score\<lparr>streak_days := 4, longest_streak_days := 9,
         last_activity_date := Some 101\<rparr>
   \<and> update_streak 101 (initial_eco_score\<lparr>streak_days := 5, longest_streak_days := 5,
        last_activity_date := Some 100\<rparr>)
     = initial_eco_score\<lparr>streak_days := 6, longest_streak_days := 6,
         last_activity_date := Some 101\<rparr>
   \<and> update_streak 105 (initial_eco_score\<lparr>streak_days := 6, longest_streak_days := 6,
        last_activity_date := Some 100\<rparr>)
     = initial_eco_score\<lparr>streak_days := 1, longest_streak_days := 6,
         last_activity_date := Some 105\<rparr>
   \<and> update_streak 99 (initial_eco_score\<lparr>streak_days := 6, longest_streak_days := 6,
        last_activity_date := Some 100\<rparr>)
     = initial_eco_score\<lparr>streak_days := 1, longest_streak_days := 6,
         last_activity_date := Some 99\<rparr>"
  using
    streak_state_machine [of "initial_eco_score\<lparr>streak_days := 0, longest_streak_days := 0,
        last_activity_date := None\<rparr>" 101 "[]"]
    streak_state_machine [of "initial_eco_score\<lparr>streak_days := 4, longest_streak_days := 9,
        last_activity_date := Some 101\<rparr>" 101 "[]"]
    streak_state_machine [of "initial_eco_score\<lparr>streak_days := 5, longest_streak_days := 5,
        last_activity_date := Some 100\<rparr>" 101 "[]"]
    streak_state_machine [of "initial_eco_score\<lparr>streak_days := 6, longest_streak_days := 6,
        last_activity_date := Some 100\<rparr>" 105 "[]"]
    streak_state_machine [of "initial_eco_score\<lparr>streak_days := 6, longest_streak_days := 6,
        last_activity_date := Some 100\<rparr>" 99 "[]"]
  by (simp add: initial_eco_score_def)

subsection \<open>C7: the longest streak bounds the streak\<close>

lemma update_streak_inv: "streak_inv s \<Longrightarrow> streak_inv (update_streak today s)"
  by (auto simp: streak_inv_def update_streak_def Let_def split: option.splits)

lemma run_inv: "streak_inv s \<Longrightarrow> streak_inv (update_from_batches today batches s)"
proof -
  assume "streak_inv s"
  then have "streak_inv (update_streak today s)" by (rule update_streak_inv)
  then show ?thesis by (simp add: streak_inv_def run_streak)
qed

lemma run_all_inv: "streak_inv s \<Longrightarrow> streak_inv (run_all s evs)"
  by (induction s evs rule: run_all.induct) (simp_all add: run_inv)

text \<open>
  C7. From the initial score, after any sequence of runs, the longest streak is at least
  the streak.
\<close>

theorem longest_streak_invariant:
  "streak_days (run_all initial_eco_score evs) \<le> longest_streak_days (run_all initial_eco_score evs)"
proof -
  have "streak_inv initial_eco_score" by (simp add: streak_inv_def initial_eco_score_def)
  then have "streak_inv (run_all initial_eco_score evs)" by (rule run_all_inv)
  then show ?thesis by (simp add: streak_inv_def)
qed

subsection \<open>C10: the level never exceeds the length of the table\<close>

lemma run_all_level: "level s \<le> 11 \<Longrightarrow> level (run_all s evs) \<le> 11"
proof (induction s evs rule: run_all.induct)
  case (1 s)
  then show ?case by simp
next
  case (2 s today batches evs)
  have "level (update_from_batches today batches s) \<le> 11"
    using "2.prems" count_le_11 [of "\<lambda>t. t \<le> py_int (sum_list (map weight_kg batches) * 10)"]
    by (simp add: run_level level_loop_count)
  then show ?case using "2.IH" by simp
qed

text \<open>
  C10. A run that computes non-negative points sets a level between 1 and 11, and 5500
  points or more give exactly level 11. A run that computes negative points assigns no
  level (no threshold is met) and keeps the stored one; along any sequence of runs from
  the initial score the level stays at most 11.
\<close>

theorem level_at_most_11:
  "(0 \<le> points (update_from_batches today batches s) \<longrightarrow>
      1 \<le> level (update_from_batches today batches s)
      \<and> level (update_from_batches today batches s) \<le> 11)
   \<and> (points (update_from_batches today batches s) < 0 \<longrightarrow>
      level (update_from_batches today batches s) = level s)
   \<and> (5500 \<le> points (update_from_batches today batches s) \<longrightarrow>
      level (update_from_batches today batches s) = 11)
   \<and> level (run_all initial_eco_score evs) \<le> 11"
proof -
  let ?p = "py_int (sum_list (map weight_kg batches) * 10)"
  have a: "0 \<le> ?p \<Longrightarrow> 1 \<le> int (length (filter (\<lambda>t. t \<le> ?p) level_thresholds))"
    by (simp add: level_thresholds_def)
  have b: "int (length (filter (\<lambda>t. t \<le> ?p) level_thresholds)) \<le> 11"
    using count_le_11 [of "\<lambda>t. t \<le> ?p"] by simp
  have c: "5500 \<le> ?p \<Longrightarrow> int (length (filter (\<lambda>t. t \<le> ?p) level_thresholds)) = 11"
    by (simp add: level_thresholds_def)
  have d: "level (run_all initial_eco_score evs) \<le> 11"
    by (rule run_all_level) (simp add: initial_eco_score_def)
  show ?thesis using a b c d by (simp add: run_points run_level level_loop_count)
qed

theorem level_at_most_11_witness:
  "0 \<le> points (update_from_batches 1
          [\<lparr>weight_kg = 600, material_co2_per_kg = None, material_water_per_kg = None,
            material_energy_per_kg = None\<rparr>] initial_eco_score)
   \<and> 5500 \<le> points (update_from_batches 1
          [\<lparr>weight_kg = 600, material_co2_per_kg = None, material_water_per_kg = None,
            material_energy_per_kg = None\<rparr>] initial_eco_score)
   \<and> level (update_from_batches 1
          [\<lparr>weight_kg = 600, material_co2_per_kg = None, material_water_per_kg = None,
            material_energy_per_kg = None\<rparr>] initial_eco_score) = 11
   \<and> points (update_from_batches 1
          [\<lparr>weight_kg = - 3, material_co2_per_kg = None, material_water_per_kg = None,
            material_energy_per_kg = None\<rparr>] (initial_eco_score\<lparr>level := 4\<rparr>)) < 0
   \<and> level (update_from_batches 1
          [\<lparr>weight_kg = - 3, material_co2_per_kg = None, material_water_per_kg = None,
            material_energy_per_kg = None\<rparr>] (initial_eco_score\<lparr>level := 4\<rparr>)) = 4"
  using
    level_at_most_11 [of 1 "[\<lparr>weight_kg = 600, material_co2_per_kg = None,
      material_water_per_kg = None, material_energy_per_kg = None\<rparr>]" initial_eco_score "[]"]
    level_at_most_11 [of 1 "[\<lparr>weight_kg = - 3, material_co2_per_kg = None,
      material_water_per_kg = None, material_energy_per_kg = None\<rparr>]"
      "initial_eco_score\<lparr>level := 4\<rparr>" "[]"]
  by (simp add: run_points py_int_def)

subsection \<open>C6: progress towards the next weight badge\<close>

lemma find_none_iff_legend:
  "find (\<lambda>(b, t). b \<notin> set (earned_badges w n d)) next_badge_thresholds = None \<longleftrightarrow> 1000 \<le> w"
  by (auto simp: next_badge_thresholds_def weight_badge_mem)

lemma all_weight_badges_iff:
  "(\<forall>(b, t) \<in> set next_badge_thresholds. b \<in> set (earned_badges w n d)) \<longleftrightarrow> 1000 \<le> w"
  by (auto simp: next_badge_thresholds_def weight_badge_mem)

text \<open>
  C6. After a run on a total weight that is not negative, \<open>next_badge_progress\<close> is the
  total weight divided by the threshold of the first weight badge, in ascending order
  of thresholds, that is absent from the badge set the run has just stored, and 1 when
  none is absent. It lies between 0 and 1, is below 1 whenever a weight badge is absent,
  and is 1 when all six weight badges are in the set. The quotient is taken exactly.
\<close>

theorem next_badge_progress_range:
  assumes "0 \<le> total_weight_kg (update_from_batches today batches s)"
  shows "next_badge_progress (update_from_batches today batches s)
           = (case find (\<lambda>(b, t). b \<notin> badges (update_from_batches today batches s))
                     next_badge_thresholds of
                None \<Rightarrow> 1
              | Some (b, t) \<Rightarrow> total_weight_kg (update_from_batches today batches s) / of_int t)
       \<and> 0 \<le> next_badge_progress (update_from_batches today batches s)
       \<and> next_badge_progress (update_from_batches today batches s) \<le> 1
       \<and> (find (\<lambda>(b, t). b \<notin> badges (update_from_batches today batches s))
              next_badge_thresholds \<noteq> None
            \<longrightarrow> next_badge_progress (update_from_batches today batches s) < 1)
       \<and> ((\<forall>(b, t) \<in> set next_badge_thresholds. b \<in> badges (update_from_batches today batches s))
            \<longrightarrow> next_badge_progress (update_from_batches today batches s) = 1)"
proof -
  let ?w = "sum_list (map weight_kg batches)"
  let ?bs = "set (earned_badges ?w (int (length batches)) (streak_days s))"
  have w: "0 \<le> ?w" using assms by (simp add: run_total_weight)
  have eq: "progress_loop next_badge_thresholds ?bs ?w
              = (case find (\<lambda>(b, t). b \<notin> ?bs) next_badge_thresholds of
                   None \<Rightarrow> 1 | Some (b, t) \<Rightarrow> ?w / of_int t)"
    by (rule progress_loop_find)
  have lt: "find (\<lambda>(b, t). b \<notin> ?bs) next_badge_thresholds \<noteq> None
              \<Longrightarrow> progress_loop next_badge_thresholds ?bs ?w < 1"
    using progress_range(3) [OF w] by (simp add: find_none_iff_legend)
  have all: "(\<forall>(b, t) \<in> set next_badge_thresholds. b \<in> ?bs)
              \<Longrightarrow> progress_loop next_badge_thresholds ?bs ?w = 1"
    by (simp add: all_weight_badges_iff progress_cases)
  have ge: "0 \<le> progress_loop next_badge_thresholds ?bs ?w"
    by (rule progress_range(1) [OF w])
  have le: "progress_loop next_badge_thresholds ?bs ?w \<le> 1"
    by (rule progress_range(2) [OF w])
  show ?thesis
    unfolding run_progress run_badges run_total_weight
  proof (intro conjI impI)
    show "progress_loop next_badge_thresholds ?bs ?w
            = (case find (\<lambda>(b, t). b \<notin> ?bs) next_badge_thresholds of
                 None \<Rightarrow> 1 | Some (b, t) \<Rightarrow> ?w / of_int t)"
      by (rule eq)
    show "0 \<le> progress_loop next_badge_thresholds ?bs ?w" by (rule ge)
    show "progress_loop next_badge_thresholds ?bs ?w \<le> 1" by (rule le)
    show "progress_loop next_badge_thresholds ?bs ?w < 1"
      if "find (\<lambda>(b, t). b \<notin> ?bs) next_badge_thresholds \<noteq> None"
      using that by (rule lt)
    show "progress_loop next_badge_thresholds ?bs ?w = 1"
      if "\<forall>(b, t) \<in> set next_badge_thresholds. b \<in> ?bs"
      using that by (rule all)
  qed
qed

theorem next_badge_progress_range_witness:
  "0 \<le> total_weight_kg (update_from_batches 1
          [\<lparr>weight_kg = 10, material_co2_per_kg = None, material_water_per_kg = None,
            material_energy_per_kg = None\<rparr>] initial_eco_score)
   \<and> find (\<lambda>(b, t). b \<notin> badges (update_from_batches 1
          [\<lparr>weight_kg = 10, material_co2_per_kg = None, material_water_per_kg = None,
            material_energy_per_kg = None\<rparr>] initial_eco_score)) next_badge_thresholds
       = Some (''eco_enthusiast'', 50)
   \<and> next_badge_progress (update_from_batches 1
          [\<lparr>weight_kg = 10, material_co2_per_kg = None, material_water_per_kg = None,
            material_energy_per_kg = None\<rparr>] initial_eco_score) = 1 / 5
   \<and> list_all (\<lambda>(b, t). b \<in> badges (update_from_batches 1
          [\<lparr>weight_kg = 1000, material_co2_per_kg = None, material_water_per_kg = None,
            material_energy_per_kg = None\<rparr>] initial_eco_score)) next_badge_thresholds
   \<and> next_badge_progress (update_from_batches 1
          [\<lparr>weight_kg = 1000, material_co2_per_kg = None, material_water_per_kg = None,
            material_energy_per_kg = None\<rparr>] initial_eco_score) = 1"
  using
    next_badge_progress_range [of 1 "[\<lparr>weight_kg = 10, material_co2_per_kg = None,
      material_water_per_kg = None, material_energy_per_kg = None\<rparr>]" initial_eco_score]
    next_badge_progress_range [of 1 "[\<lparr>weight_kg = 1000, material_co2_per_kg = None,
      material_water_per_kg = None, material_energy_per_kg = None\<rparr>]" initial_eco_score]
  by (simp add: run_total_weight run_badges next_badge_thresholds_def weight_badge_mem)

subsection \<open>C1: the badge set is rebuilt, not extended\<close>

lemma run_ignores_badges:
  "update_from_batches today batches (s\<lparr>badges := B\<rparr>) = update_from_batches today batches s"
  by (simp add: update_from_batches_def update_gamification_elements_def update_streak_def
      Let_def split: option.split)

text \<open>
  C1, as stated, fails: the run assigns the freshly built list to \<open>badges\<close>, so a badge
  whose metric has regressed is dropped. A run on one batch of 10 kg stores
  \<open>first_step\<close>; the next run, on an empty batch set (the batch has been deactivated),
  stores a set without it.
\<close>

theorem badges_union_counterexample:
  "''first_step'' \<in> badges (update_from_batches 1
        [\<lparr>weight_kg = 10, material_co2_per_kg = None, material_water_per_kg = None,
          material_energy_per_kg = None\<rparr>] initial_eco_score)
   \<and> ''first_step'' \<notin> badges (update_from_batches 2 [] (update_from_batches 1
        [\<lparr>weight_kg = 10, material_co2_per_kg = None, material_water_per_kg = None,
          material_energy_per_kg = None\<rparr>] initial_eco_score))"
  by (simp add: run_badges weight_badge_mem)

text \<open>
  C1, amended. A run rebuilds the badge set and replaces the stored one: the result does
  not depend on the badges stored before and holds none but the twelve badge codes.
  After a run each weight badge is present exactly when the run's \<open>total_weight_kg\<close>
  reaches its threshold (1, 10, 50, 100, 500, 1000 kg) and each batch-count badge exactly
  when the run's \<open>total_batches\<close> reaches its threshold (5, 20, 50). Across two successive
  runs in which \<open>total_weight_kg\<close> and \<open>total_batches\<close> do not decrease, every weight
  badge and batch-count badge of the first run's set is in the second run's set. Nothing
  is said here about the streak badges.
\<close>

theorem badges_recomputed_monotone:
  assumes "total_weight_kg (update_from_batches d1 bs1 s)
             \<le> total_weight_kg (update_from_batches d2 bs2 (update_from_batches d1 bs1 s))"
      and "total_batches (update_from_batches d1 bs1 s)
             \<le> total_batches (update_from_batches d2 bs2 (update_from_batches d1 bs1 s))"
  shows "((''first_step'' \<in> badges (update_from_batches d1 bs1 s)
            \<longleftrightarrow> 1 \<le> total_weight_kg (update_from_batches d1 bs1 s))
        \<and> (''eco_starter'' \<in> badges (update_from_batches d1 bs1 s)
            \<longleftrightarrow> 10 \<le> total_weight_kg (update_from_batches d1 bs1 s))
        \<and> (''eco_enthusiast'' \<in> badges (update_from_batches d1 bs1 s)
            \<longleftrightarrow> 50 \<le> total_weight_kg (update_from_batches d1 bs1 s))
        \<and> (''eco_warrior'' \<in> badges (update_from_batches d1 bs1 s)
            \<longleftrightarrow> 100 \<le> total_weight_kg (update_from_batches d1 bs1 s))
        \<and> (''eco_champion'' \<in> badges (update_from_batches d1 bs1 s)
            \<longleftrightarrow> 500 \<le> total_weight_kg (update_from_batches d1 bs1 s))
        \<and> (''eco_legend'' \<in> badges (update_from_batches d1 bs1 s)
            \<longleftrightarrow> 1000 \<le> total_weight_kg (update_from_batches d1 bs1 s))
        \<and> (''regular_recycler'' \<in> badges (update_from_batches d1 bs1 s)
            \<longleftrightarrow> 5 \<le> total_batches (update_from_batches d1 bs1 s))
        \<and> (''dedicated_recycler'' \<in> badges (update_from_batches d1 bs1 s)
            \<longleftrightarrow> 20 \<le> total_batches (update_from_batches d1 bs1 s))
        \<and> (''recycling_expert'' \<in> badges (update_from_batches d1 bs1 s)
            \<longleftrightarrow> 50 \<le> total_batches (update_from_batches d1 bs1 s)))
       \<and> badges (update_from_batches d1 bs1 (s\<lparr>badges := B\<rparr>))
           = badges (update_from_batches d1 bs1 s)
       \<and> badges (update_from_batches d1 bs1 s)
           \<subseteq> {''first_step'', ''eco_starter'', ''eco_enthusiast'', ''eco_warrior'',
              ''eco_champion'', ''eco_legend'', ''regular_recycler'', ''dedicated_recycler'',
              ''recycling_expert'', ''weekly_streak'', ''monthly_streak'', ''centurion''}
       \<and> badges (update_from_batches d1 bs1 s)
             \<inter> {''first_step'', ''eco_starter'', ''eco_enthusiast'', ''eco_warrior'',
                ''eco_champion'', ''eco_legend'', ''regular_recycler'', ''dedicated_recycler'',
                ''recycling_expert''}
           \<subseteq> badges (update_from_batches d2 bs2 (update_from_batches d1 bs1 s))"
proof -
  have thresholds:
    "(''first_step'' \<in> badges (update_from_batches d1 bs1 s)
        \<longleftrightarrow> 1 \<le> total_weight_kg (update_from_batches d1 bs1 s))
     \<and> (''eco_starter'' \<in> badges (update_from_batches d1 bs1 s)
        \<longleftrightarrow> 10 \<le> total_weight_kg (update_from_batches d1 bs1 s))
     \<and> (''eco_enthusiast'' \<in> badges (update_from_batches d1 bs1 s)
        \<longleftrightarrow> 50 \<le> total_weight_kg (update_from_batches d1 bs1 s))
     \<and> (''eco_warrior'' \<in> badges (update_from_batches d1 bs1 s)
        \<longleftrightarrow> 100 \<le> total_weight_kg (update_from_batches d1 bs1 s))
     \<and> (''eco_champion'' \<in> badges (update_from_batches d1 bs1 s)
        \<longleftrightarrow> 500 \<le> total_weight_kg (update_from_batches d1 bs1 s))
     \<and> (''eco_legend'' \<in> badges (update_from_batches d1 bs1 s)
        \<longleftrightarrow> 1000 \<le> total_weight_kg (update_from_batches d1 bs1 s))
     \<and> (''regular_recycler'' \<in> badges (update_from_batches d1 bs1 s)
        \<longleftrightarrow> 5 \<le> total_batches (update_from_batches d1 bs1 s))
     \<and> (''dedicated_recycler'' \<in> badges (update_from_batches d1 bs1 s)
        \<longleftrightarrow> 20 \<le> total_batches (update_from_batches d1 bs1 s))
     \<and> (''recycling_expert'' \<in> badges (update_from_batches d1 bs1 s)
        \<longleftrightarrow> 50 \<le> total_batches (update_from_batches d1 bs1 s))"
    by (simp add: run_badges run_total_weight run_total_batches weight_badge_mem
        batch_badge_mem)
  have replaced: "badges (update_from_batches d1 bs1 (s\<lparr>badges := B\<rparr>))
      = badges (update_from_batches d1 bs1 s)"
    by (simp only: run_ignores_badges)
  have known: "badges (update_from_batches d1 bs1 s)
      \<subseteq> {''first_step'', ''eco_starter'', ''eco_enthusiast'', ''eco_warrior'',
         ''eco_champion'', ''eco_legend'', ''regular_recycler'', ''dedicated_recycler'',
         ''recycling_expert'', ''weekly_streak'', ''monthly_streak'', ''centurion''}"
    unfolding run_badges by (rule earned_badges_known)
  have w: "sum_list (map weight_kg bs1) \<le> sum_list (map weight_kg bs2)"
    using assms(1) by (simp add: run_total_weight)
  have n: "int (length bs1) \<le> int (length bs2)"
    using assms(2) by (simp add: run_total_batches)
  have mono: "badges (update_from_batches d1 bs1 s)
        \<inter> {''first_step'', ''eco_starter'', ''eco_enthusiast'', ''eco_warrior'',
           ''eco_champion'', ''eco_legend'', ''regular_recycler'', ''dedicated_recycler'',
           ''recycling_expert''}
      \<subseteq> badges (update_from_batches d2 bs2 (update_from_batches d1 bs1 s))"
    unfolding run_badges by (rule metric_badges_mono [OF w n])
  show ?thesis
    by (rule conjI [OF thresholds conjI [OF replaced conjI [OF known mono]]])
qed

theorem badges_recomputed_monotone_witness:
  "total_weight_kg (update_from_batches 1
        [\<lparr>weight_kg = 10, material_co2_per_kg = None, material_water_per_kg = None,
          material_energy_per_kg = None\<rparr>] initial_eco_score)
     \<le> total_weight_kg (update_from_batches 2
        [\<lparr>weight_kg = 10, material_co2_per_kg = None, material_water_per_kg = None,
          material_energy_per_kg = None\<rparr>,
         \<lparr>weight_kg = 40, material_co2_per_kg = None, material_water_per_kg = None,
          material_energy_per_kg = None\<rparr>]
        (update_from_batches 1
          [\<lparr>weight_kg = 10, material_co2_per_kg = None, material_water_per_kg = None,
          material_energy_per_kg = None\<rparr>] initial_eco_score))
   \<and> total_batches (update_from_batches 1
        [\<lparr>weight_kg = 10, material_co2_per_kg = None, material_water_per_kg = None,
          material_energy_per_kg = None\<rparr>] initial_eco_score)
     \<le> total_batches (update_from_batches 2
        [\<lparr>weight_kg = 10, material_co2_per_kg = None, material_water_per_kg = None,
          material_energy_per_kg = None\<rparr>,
         \<lparr>weight_kg = 40, material_co2_per_kg = None, material_water_per_kg = None,
          material_energy_per_kg = None\<rparr>]
        (update_from_batches 1
          [\<lparr>weight_kg = 10, material_co2_per_kg = None, material_water_per_kg = None,
          material_energy_per_kg = None\<rparr>] initial_eco_score))
   \<and> ''eco_starter'' \<in> badges (update_from_batches 1
        [\<lparr>weight_kg = 10, material_co2_per_kg = None, material_water_per_kg = None,
          material_energy_per_kg = None\<rparr>] initial_eco_score)
   \<and> ''eco_enthusiast'' \<notin> badges (update_from_batches 1
        [\<lparr>weight_kg = 10, material_co2_per_kg = None, material_water_per_kg = None,
          material_energy_per_kg = None\<rparr>] initial_eco_score)
   \<and> badges (update_from_batches 1
        [\<lparr>weight_kg = 10, material_co2_per_kg = None, material_water_per_kg = None,
          material_energy_per_kg = None\<rparr>] initial_eco_score)
       \<inter> {''first_step'', ''eco_starter'', ''eco_enthusiast'', ''eco_warrior'',
          ''eco_champion'', ''eco_legend'', ''regular_recycler'', ''dedicated_recycler'',
          ''recycling_expert''}
     \<subseteq> badges (update_from_batches 2
        [\<lparr>weight_kg = 10, material_co2_per_kg = None, material_water_per_kg = None,
          material_energy_per_kg = None\<rparr>,
         \<lparr>weight_kg = 40, material_co2_per_kg = None, material_water_per_kg = None,
          material_energy_per_kg = None\<rparr>]
        (update_from_batches 1
          [\<lparr>weight_kg = 10, material_co2_per_kg = None, material_water_per_kg = None,
          material_energy_per_kg = None\<rparr>] initial_eco_score))"
proof -
  let ?bs1 = "[\<lparr>weight_kg = 10, material_co2_per_kg = None, material_water_per_kg = None,
          material_energy_per_kg = None\<rparr>]"
  let ?bs2 = "[\<lparr>weight_kg = 10, material_co2_per_kg = None, material_water_per_kg = None,
          material_energy_per_kg = None\<rparr>,
         \<lparr>weight_kg = 40, material_co2_per_kg = None, material_water_per_kg = None,
          material_energy_per_kg = None\<rparr>]"
  have h1: "total_weight_kg (update_from_batches 1 ?bs1 initial_eco_score)
      \<le> total_weight_kg (update_from_batches 2 ?bs2 (update_from_batches 1 ?bs1 initial_eco_score))"
    by (simp add: run_total_weight)
  have h2: "total_batches (update_from_batches 1 ?bs1 initial_eco_score)
      \<le> total_batches (update_from_batches 2 ?bs2 (update_from_batches 1 ?bs1 initial_eco_score))"
    by (simp add: run_total_batches)
  have w: "total_weight_kg (update_from_batches 1 ?bs1 initial_eco_score) = 10"
    by (simp add: run_total_weight)
  note t = badges_recomputed_monotone [OF h1 h2, of "{}"]
  have "''eco_starter'' \<in> badges (update_from_batches 1 ?bs1 initial_eco_score)
      \<longleftrightarrow> 10 \<le> total_weight_kg (update_from_batches 1 ?bs1 initial_eco_score)"
    using t by (elim conjE)
  then have a: "''eco_starter'' \<in> badges (update_from_batches 1 ?bs1 initial_eco_score)"
    by (simp only: w)
  have "''eco_enthusiast'' \<in> badges (update_from_batches 1 ?bs1 initial_eco_score)
      \<longleftrightarrow> 50 \<le> total_weight_kg (update_from_batches 1 ?bs1 initial_eco_score)"
    using t by (elim conjE)
  then have b: "''eco_enthusiast'' \<notin> badges (update_from_batches 1 ?bs1 initial_eco_score)"
    by (simp only: w)
  have c: "badges (update_from_batches 1 ?bs1 initial_eco_score)
       \<inter> {''first_step'', ''eco_starter'', ''eco_enthusiast'', ''eco_warrior'',
          ''eco_champion'', ''eco_legend'', ''regular_recycler'', ''dedicated_recycler'',
          ''recycling_expert''}
     \<subseteq> badges (update_from_batches 2 ?bs2 (update_from_batches 1 ?bs1 initial_eco_score))"
    using t by (elim conjE)
  show ?thesis
    by (rule conjI [OF h1 conjI [OF h2 conjI [OF a conjI [OF b c]]]])
qed

subsection \<open>C8: points and level follow the total weight\<close>

text \<open>
  C8, as stated, fails: points and level are recomputed from the batches each run reads.
  A run on one batch of 10 kg gives 100 points and level 2; the next run, on an empty
  batch set, gives 0 points and level 1.
\<close>

theorem points_level_decrease_counterexample:
  "points (update_from_batches 1
        [\<lparr>weight_kg = 10, material_co2_per_kg = None, material_water_per_kg = None,
          material_energy_per_kg = None\<rparr>] initial_eco_score) = 100
   \<and> level (update_from_batches 1
        [\<lparr>weight_kg = 10, material_co2_per_kg = None, material_water_per_kg = None,
          material_energy_per_kg = None\<rparr>] initial_eco_score) = 2
   \<and> points (update_from_batches 2 [] (update_from_batches 1
        [\<lparr>weight_kg = 10, material_co2_per_kg = None, material_water_per_kg = None,
          material_energy_per_kg = None\<rparr>] initial_eco_score)) = 0
   \<and> level (update_from_batches 2 [] (update_from_batches 1
        [\<lparr>weight_kg = 10, material_co2_per_kg = None, material_water_per_kg = None,
          material_energy_per_kg = None\<rparr>] initial_eco_score)) = 1"
  by (simp add: run_points run_level level_loop_count py_int_def level_thresholds_def)

text \<open>
  C8, amended. For two successive runs where the total weight of the first is not
  negative and that of the second is at least that of the first, the points and the level
  after the second run are at least those after the first.
\<close>

theorem points_level_monotone_in_weight:
  assumes "0 \<le> total_weight_kg (update_from_batches d1 bs1 s)"
      and "total_weight_kg (update_from_batches d1 bs1 s)
             \<le> total_weight_kg (update_from_batches d2 bs2 (update_from_batches d1 bs1 s))"
  shows "points (update_from_batches d1 bs1 s)
           \<le> points (update_from_batches d2 bs2 (update_from_batches d1 bs1 s))
       \<and> level (update_from_batches d1 bs1 s)
           \<le> level (update_from_batches d2 bs2 (update_from_batches d1 bs1 s))"
proof -
  let ?w1 = "sum_list (map weight_kg bs1)" and ?w2 = "sum_list (map weight_kg bs2)"
  have w1: "0 \<le> ?w1 * 10" using assms(1) by (simp add: run_total_weight)
  have w12: "?w1 * 10 \<le> ?w2 * 10" using assms(2) by (simp add: run_total_weight)
  have p: "py_int (?w1 * 10) \<le> py_int (?w2 * 10)" using w12 by (rule py_int_mono)
  have p1: "0 \<le> py_int (?w1 * 10)" using w1 by (simp add: py_int_def)
  then have p2: "0 \<le> py_int (?w2 * 10)" using p by simp
  have "length (filter (\<lambda>t. t \<le> py_int (?w1 * 10)) level_thresholds)
          \<le> length (filter (\<lambda>t. t \<le> py_int (?w2 * 10)) level_thresholds)"
    using p by (rule count_mono)
  then show ?thesis using p p1 p2 by (simp add: run_points run_level level_loop_count)
qed

theorem points_level_monotone_in_weight_witness:
  "0 \<le> total_weight_kg (update_from_batches 1
        [\<lparr>weight_kg = 10, material_co2_per_kg = None, material_water_per_kg = None,
          material_energy_per_kg = None\<rparr>] initial_eco_score)
   \<and> total_weight_kg (update_from_batches 1
        [\<lparr>weight_kg = 10, material_co2_per_kg = None, material_water_per_kg = None,
          material_energy_per_kg = None\<rparr>] initial_eco_score)
     \<le> total_weight_kg (update_from_batches 2
        [\<lparr>weight_kg = 30, material_co2_per_kg = None, material_water_per_kg = None,
          material_energy_per_kg = None\<rparr>]
        (update_from_batches 1
          [\<lparr>weight_kg = 10, material_co2_per_kg = None, material_water_per_kg = None,
            material_energy_per_kg = None\<rparr>] initial_eco_score))
   \<and> points (update_from_batches 1
        [\<lparr>weight_kg = 10, material_co2_per_kg = None, material_water_per_kg = None,
          material_energy_per_kg = None\<rparr>] initial_eco_score)
     \<le> points (update_from_batches 2
        [\<lparr>weight_kg = 30, material_co2_per_kg = None, material_water_per_kg = None,
          material_energy_per_kg = None\<rparr>]
        (update_from_batches 1
          [\<lparr>weight_kg = 10, material_co2_per_kg = None, material_water_per_kg = None,
            material_energy_per_kg = None\<rparr>] initial_eco_score))
   \<and> level (update_from_batches 1
        [\<lparr>weight_kg = 10, material_co2_per_kg = None, material_water_per_kg = None,
          material_energy_per_kg = None\<rparr>] initial_eco_score)
     \<le> level (update_from_batches 2
        [\<lparr>weight_kg = 30, material_co2_per_kg = None, material_water_per_kg = None,
          material_energy_per_kg = None\<rparr>]
        (update_from_batches 1
          [\<lparr>weight_kg = 10, material_co2_per_kg = None, material_water_per_kg = None,
            material_energy_per_kg = None\<rparr>] initial_eco_score))"
proof -
  let ?bs1 = "[\<lparr>weight_kg = 10, material_co2_per_kg = None, material_water_per_kg = None,
          material_energy_per_kg = None\<rparr>]"
  let ?bs2 = "[\<lparr>weight_kg = 30, material_co2_per_kg = None, material_water_per_kg = None,
          material_energy_per_kg = None\<rparr>]"
  have h1: "0 \<le> total_weight_kg (update_from_batches 1 ?bs1 initial_eco_score)"
    by (simp add: run_total_weight)
  have h2: "total_weight_kg (update_from_batches 1 ?bs1 initial_eco_score)
      \<le> total_weight_kg (update_from_batches 2 ?bs2 (update_from_batches 1 ?bs1 initial_eco_score))"
    by (simp add: run_total_weight)
  show ?thesis
    using h1 h2 points_level_monotone_in_weight [OF h1 h2] by blast
qed

subsection \<open>C9: a run on an empty batch set\<close>

lemma empty_run_totals:
  "total_co2_saved_kg (update_from_batches today [] s) = 0"
  "total_water_saved_liters (update_from_batches today [] s) = 0"
  "total_energy_saved_kwh (update_from_batches today [] s) = 0"
  "trees_equivalent (update_from_batches today [] s) = 0"
  by (simp_all add: update_from_batches_def Let_def streak_keeps_gamification
      update_gamification_elements_def sql_sum_def or_zero_def List.map_filter_def)

lemma empty_run_streak_badges:
  "set (earned_badges 0 0 d) \<subseteq> {''weekly_streak'', ''monthly_streak'', ''centurion''}"
  by (cases "7 \<le> d"; cases "30 \<le> d"; cases "100 \<le> d"; simp add: earned_badges_def)

text \<open>
  C9, as stated, fails in its badge part: the streak badges do not depend on the batch
  set. After runs on seven consecutive days, all on an empty batch set, the run on day 8
  stores a badge set that is not empty.
\<close>

theorem empty_batches_badges_counterexample:
  "badges (update_from_batches 8 [] (run_all initial_eco_score
       [(1, []), (2, []), (3, []), (4, []), (5, []), (6, []), (7, [])])) \<noteq> {}"
  by (simp add: run_eval)

text \<open>
  C9, amended. A run on an empty batch set yields zero batches, zero weight, zero CO2,
  water and energy totals, zero trees, 0 points, level 1 and progress 0; its badge set
  holds no weight badge and no batch-count badge, so that any badge in it is one of the
  three streak badges; on the initial score the badge set is empty. Nothing is said here
  about which streak badges a longer streak gives.
\<close>

theorem empty_batches_run:
  "(total_batches (update_from_batches today [] s) = 0
    \<and> total_weight_kg (update_from_batches today [] s) = 0
    \<and> total_co2_saved_kg (update_from_batches today [] s) = 0
    \<and> total_water_saved_liters (update_from_batches today [] s) = 0
    \<and> total_energy_saved_kwh (update_from_batches today [] s) = 0
    \<and> trees_equivalent (update_from_batches today [] s) = 0
    \<and> points (update_from_batches today [] s) = 0
    \<and> level (update_from_batches today [] s) = 1
    \<and> next_badge_progress (update_from_batches today [] s) = 0)
   \<and> badges (update_from_batches today [] s)
        \<inter> {''first_step'', ''eco_starter'', ''eco_enthusiast'', ''eco_warrior'',
           ''eco_champion'', ''eco_legend'', ''regular_recycler'', ''dedicated_recycler'',
           ''recycling_expert''} = {}
   \<and> badges (update_from_batches today [] s)
        \<subseteq> {''weekly_streak'', ''monthly_streak'', ''centurion''}
   \<and> badges (update_from_batches today [] initial_eco_score) = {}"
proof -
  have lv: "level (update_from_batches today [] s) = 1"
    by (simp add: run_level level_loop_count py_int_def level_thresholds_def)
  have pr: "next_badge_progress (update_from_batches today [] s) = 0"
    by (simp add: run_progress progress_cases)
  have scalars:
    "total_batches (update_from_batches today [] s) = 0
     \<and> total_weight_kg (update_from_batches today [] s) = 0
     \<and> total_co2_saved_kg (update_from_batches today [] s) = 0
     \<and> total_water_saved_liters (update_from_batches today [] s) = 0
     \<and> total_energy_saved_kwh (update_from_batches today [] s) = 0
     \<and> trees_equivalent (update_from_batches today [] s) = 0
     \<and> points (update_from_batches today [] s) = 0
     \<and> level (update_from_batches today [] s) = 1
     \<and> next_badge_progress (update_from_batches today [] s) = 0"
    using lv pr
    by (simp add: run_total_batches run_total_weight empty_run_totals run_points py_int_def)
  have b: "badges (update_from_batches today [] s) = set (earned_badges 0 0 (streak_days s))"
    by (simp add: run_badges)
  have none: "badges (update_from_batches today [] s)
        \<inter> {''first_step'', ''eco_starter'', ''eco_enthusiast'', ''eco_warrior'',
           ''eco_champion'', ''eco_legend'', ''regular_recycler'', ''dedicated_recycler'',
           ''recycling_expert''} = {}"
    unfolding b by (rule empty_run_metric_badges)
  have streak_only: "badges (update_from_batches today [] s)
        \<subseteq> {''weekly_streak'', ''monthly_streak'', ''centurion''}"
    unfolding b by (rule empty_run_streak_badges)
  have fresh: "badges (update_from_batches today [] initial_eco_score) = {}"
    by (simp add: run_badges initial_eco_score_def earned_badges_def)
  show ?thesis
    by (rule conjI [OF scalars conjI [OF none conjI [OF streak_only fresh]]])
qed

theorem empty_batches_run_witness:
  "points (update_from_batches 1 [] initial_eco_score) = 0
   \<and> level (update_from_batches 1 [] initial_eco_score) = 1
   \<and> next_badge_progress (update_from_batches 1 [] initial_eco_score) = 0
   \<and> badges (update_from_batches 1 [] initial_eco_score) = {}"
  using empty_batches_run [of 1 initial_eco_score] by (elim conjE, intro conjI)

subsection \<open>C3: streak badges are read before the streak update\<close>

text \<open>
  C3. The run calls \<^verbatim>\<open>_update_gamification_elements\<close> first and \<^verbatim>\<open>_update_streak\<close>
  second, so the streak badges are tested against the \<open>streak_days\<close> stored before the
  run. After six consecutive days the streak is 6; the run on day 7 brings it to 7 and
  stores a badge set without \<open>weekly_streak\<close>.
\<close>

theorem streak_badge_lags_one_run:
  "streak_days (run_all initial_eco_score
       [(1, []), (2, []), (3, []), (4, []), (5, []), (6, [])]) = 6
   \<and> streak_days (update_from_batches 7 [] (run_all initial_eco_score
       [(1, []), (2, []), (3, []), (4, []), (5, []), (6, [])])) = 7
   \<and> ''weekly_streak'' \<notin> badges (update_from_batches 7 [] (run_all initial_eco_score
       [(1, []), (2, []), (3, []), (4, []), (5, []), (6, [])]))"
  by (simp add: run_eval)

subsection \<open>C5: a second run on the same day\<close>

text \<open>
  C5. With a streak of 6 days whose last activity was yesterday, a first run today
  stores a streak of 7 and no \<open>weekly_streak\<close>; a second run today on the same batch set
  reads the streak of 7 and stores \<open>weekly_streak\<close>, so the two resulting states differ.
\<close>

theorem second_run_same_day_differs:
  "''weekly_streak'' \<notin> badges (update_from_batches 101 []
        (initial_eco_score\<lparr>streak_days := 6, longest_streak_days := 6,
           last_activity_date := Some 100\<rparr>))
   \<and> ''weekly_streak'' \<in> badges (update_from_batches 101 [] (update_from_batches 101 []
        (initial_eco_score\<lparr>streak_days := 6, longest_streak_days := 6,
           last_activity_date := Some 100\<rparr>)))
   \<and> update_from_batches 101 [] (update_from_batches 101 []
        (initial_eco_score\<lparr>streak_days := 6, longest_streak_days := 6,
           last_activity_date := Some 100\<rparr>))
     \<noteq> update_from_batches 101 []
        (initial_eco_score\<lparr>streak_days := 6, longest_streak_days := 6,
           last_activity_date := Some 100\<rparr>)"
  by (simp add: run_eval)

end
